theory Spec2Isabelle
  imports Main
begin

section \<open>Package deckformat: compatibility checks and the history ledger\<close>

text \<open>
  A shallow embedding of package \<open>deckformat\<close> (the file with \<open>ToolVersionSet\<close>,
  \<open>CompatibleTransform\<close>, \<open>CompatibleVersion\<close>, \<open>CompatibleFile\<close>,
  \<open>ParseFormatVersion\<close> and the \<open>History*\<close> functions).

  A Go function either returns or panics; a panic carries its message.
\<close>

datatype 'a outcome = Panic string | Returned 'a

subsection \<open>Tool identity\<close>

text \<open>
  The package variable \<open>toolInfo\<close> is a struct of three strings, all empty when the
  process starts. The functions that touch it take the current value and, where they
  write, return the new one.
\<close>

record tool_info =
  name :: string
  version :: string
  commit :: string

definition toolInfo_init :: tool_info where
  "toolInfo_init = \<lparr>name = '''', version = '''', commit = ''''\<rparr>"

definition ToolVersionSet :: "tool_info \<Rightarrow> string \<Rightarrow> string \<Rightarrow> string \<Rightarrow> tool_info outcome" where
  "ToolVersionSet toolInfo n v c =
     (if name toolInfo \<noteq> '''' \<or> n = ''''
      then Panic ''the tool information was already set, or cannot be set to an empty string''
      else Returned (toolInfo\<lparr>name := n, version := v, commit := c\<rparr>))"

definition ToolVersionGet :: "tool_info \<Rightarrow> (string \<times> string \<times> string) outcome" where
  "ToolVersionGet toolInfo =
     (if name toolInfo = ''''
      then Panic ''the tool information wasn't set, call ToolVersionSet first''
      else Returned (name toolInfo, version toolInfo, commit toolInfo))"

definition ToolVersionString :: "tool_info \<Rightarrow> string outcome" where
  "ToolVersionString toolInfo =
     (case ToolVersionGet toolInfo of
        Panic m \<Rightarrow> Panic m
      | Returned (n, v, c) \<Rightarrow>
          if c \<noteq> '''' then Returned (n @ '' '' @ v @ '' ('' @ c @ '')'')
          else if v \<noteq> '''' then Returned (n @ '' '' @ v)
          else Returned n)"

text \<open>
  The values \<open>toolInfo\<close> can hold during a run: the initial one, and whatever a call of
  \<open>ToolVersionSet\<close> that returned has left there. An identity "has been set" in a state
  when the state is reachable and is not the initial one.
\<close>

inductive reachable :: "tool_info \<Rightarrow> bool" where
  start: "reachable toolInfo_init"
| set: "reachable s \<Longrightarrow> ToolVersionSet s n v c = Returned s' \<Longrightarrow> reachable s'"

subsection \<open>Documents\<close>

text \<open>
  A document is a Go \<open>map[string]interface{}\<close>. The values of such a map are JSON-like
  trees: nil, booleans, numbers, strings, slices and nested maps. Slices and maps are
  reference types: two values that hold the same backing store see each other's writes.
  Each slice and each map value therefore carries the address of its store, next to a
  reading of its contents. The package never looks into numbers, so one constructor
  stands for all of them.
\<close>

type_synonym addr = nat

datatype jvalue =
    JNil
  | JBool bool
  | JNumber int
  | JString string
  | JArray addr "jvalue list"
  | JObject addr "(string \<times> jvalue) list"

text \<open>
  A map variable is nil (\<open>None\<close>) or holds a map. A slice is its store's address and
  its elements; a slice variable may be nil as well.
\<close>

type_synonym document = "(string \<rightharpoonup> jvalue) option"

type_synonym slice = "addr \<times> jvalue list"

definition VersionKey :: string where
  "VersionKey = ''_format_version''"

definition TransformKey :: string where
  "TransformKey = ''_transform''"

definition HistoryKey :: string where
  "HistoryKey = ''_ignore''"

text \<open>
  The index expression \<open>data[key]\<close>: the zero value nil when the map is nil or has no
  such key, the stored value otherwise (which may itself be nil).
\<close>

definition index :: "document \<Rightarrow> string \<Rightarrow> jvalue" where
  "index data k =
     (case data of
        None \<Rightarrow> JNil
      | Some m \<Rightarrow> (case m k of None \<Rightarrow> JNil | Some v \<Rightarrow> v))"

subsection \<open>Errors\<close>

text \<open>
  Go errors are values with a message. \<open>ErrorString\<close> is what \<open>errors.New\<close> and
  \<open>fmt.Errorf\<close> without \<open>%w\<close> build; \<open>WrapError p e\<close> is
  \<open>fmt.Errorf(p + "%w", e)\<close>, whose message is \<open>p\<close> followed by the message of
  \<open>e\<close>. \<open>FieldError k\<close> stands for an error made by package \<open>jsonbasics\<close> about
  the field \<open>k\<close>; the text of its message is a parameter of \<open>Error\<close>.
\<close>

datatype error =
    ErrorString string
  | WrapError string error
  | FieldError string

fun Error :: "(string \<Rightarrow> string) \<Rightarrow> error \<Rightarrow> string" where
  "Error ft (ErrorString s) = s"
| "Error ft (WrapError p e) = p @ Error ft e"
| "Error ft (FieldError k) = ft k"

subsection \<open>Package jsonbasics\<close>

text \<open>
  Modelled from the spec: package \<open>jsonbasics\<close> (\<open>GetStringField\<close>,
  \<open>GetBoolField\<close>, \<open>ToArray\<close>, \<open>DeepCopyArray\<close>) is not among the source files.
  The spec has \<open>_format_version\<close> fail "if the key is missing, is not a string",
  \<open>_transform\<close> be a boolean, the history value be "interpreted as a sequence" or
  else wrapped, and the history be returned as "a deep copy, never a live view".
\<close>

definition GetStringField :: "document \<Rightarrow> string \<Rightarrow> error + string" where
  "GetStringField object fieldName =
     (case index object fieldName of
        JString s \<Rightarrow> Inr s
      | _ \<Rightarrow> Inl (FieldError fieldName))"

definition GetBoolField :: "document \<Rightarrow> string \<Rightarrow> error + bool" where
  "GetBoolField object fieldName =
     (case index object fieldName of
        JBool b \<Rightarrow> Inr b
      | _ \<Rightarrow> Inl (FieldError fieldName))"

definition ToArray :: "jvalue \<Rightarrow> error + slice" where
  "ToArray arr =
     (case arr of
        JArray a xs \<Rightarrow> Inr (a, xs)
      | _ \<Rightarrow> Inl (FieldError []))"

text \<open>
  A deep copy rebuilds every slice and every map of a value in new storage. The
  allocator is the next unused address; whatever allocates takes it and returns the
  one after its last allocation.
\<close>

fun deep_copy :: "jvalue \<Rightarrow> addr \<Rightarrow> jvalue \<times> addr"
  and deep_copy_list :: "jvalue list \<Rightarrow> addr \<Rightarrow> jvalue list \<times> addr"
  and deep_copy_fields :: "(string \<times> jvalue) list \<Rightarrow> addr \<Rightarrow> (string \<times> jvalue) list \<times> addr"
where
  "deep_copy (JArray a xs) n =
     (case deep_copy_list xs (Suc n) of (ys, n') \<Rightarrow> (JArray n ys, n'))"
| "deep_copy (JObject a fs) n =
     (case deep_copy_fields fs (Suc n) of (gs, n') \<Rightarrow> (JObject n gs, n'))"
| "deep_copy JNil n = (JNil, n)"
| "deep_copy (JBool b) n = (JBool b, n)"
| "deep_copy (JNumber i) n = (JNumber i, n)"
| "deep_copy (JString s) n = (JString s, n)"
| "deep_copy_list [] n = ([], n)"
| "deep_copy_list (x # xs) n =
     (case deep_copy x n of (y, n1) \<Rightarrow>
        (case deep_copy_list xs n1 of (ys, n2) \<Rightarrow> (y # ys, n2)))"
| "deep_copy_fields [] n = ([], n)"
| "deep_copy_fields ((k, x) # fs) n =
     (case deep_copy x n of (y, n1) \<Rightarrow>
        (case deep_copy_fields fs n1 of (gs, n2) \<Rightarrow> ((k, y) # gs, n2)))"

definition DeepCopyArray :: "slice \<Rightarrow> addr \<Rightarrow> slice \<times> addr" where
  "DeepCopyArray data n =
     (case deep_copy_list (snd data) (Suc n) of (ys, n') \<Rightarrow> ((n, ys), n'))"

text \<open>
  Two readings of a value: the addresses of all the stores it reaches, and its contents
  with every address forgotten. Two values are copies of each other when their
  contents are equal; they share storage when they have an address in common.
\<close>

fun addrs :: "jvalue \<Rightarrow> addr set"
  and addrs_list :: "jvalue list \<Rightarrow> addr set"
  and addrs_fields :: "(string \<times> jvalue) list \<Rightarrow> addr set"
where
  "addrs (JArray a xs) = insert a (addrs_list xs)"
| "addrs (JObject a fs) = insert a (addrs_fields fs)"
| "addrs JNil = {}"
| "addrs (JBool b) = {}"
| "addrs (JNumber i) = {}"
| "addrs (JString s) = {}"
| "addrs_list [] = {}"
| "addrs_list (x # xs) = addrs x \<union> addrs_list xs"
| "addrs_fields [] = {}"
| "addrs_fields ((k, x) # fs) = addrs x \<union> addrs_fields fs"

fun content :: "jvalue \<Rightarrow> jvalue"
  and content_list :: "jvalue list \<Rightarrow> jvalue list"
  and content_fields :: "(string \<times> jvalue) list \<Rightarrow> (string \<times> jvalue) list"
where
  "content (JArray a xs) = JArray 0 (content_list xs)"
| "content (JObject a fs) = JObject 0 (content_fields fs)"
| "content JNil = JNil"
| "content (JBool b) = JBool b"
| "content (JNumber i) = JNumber i"
| "content (JString s) = JString s"
| "content_list [] = []"
| "content_list (x # xs) = content x # content_list xs"
| "content_fields [] = []"
| "content_fields ((k, x) # fs) = (k, content x) # content_fields fs"

subsection \<open>The Go library: strings.Split, strconv.Atoi, the verb \<open>%d\<close>\<close>

text \<open>
  \<open>strings.Split(s, sep)\<close> for a one-byte separator: the pieces of \<open>s\<close> between the
  separators, one more piece than there are separators; the empty string gives one
  empty piece.
\<close>

fun Split :: "string \<Rightarrow> char \<Rightarrow> string list" where
  "Split [] sep = [[]]"
| "Split (c # cs) sep =
     (if c = sep then [] # Split cs sep
      else (case Split cs sep of
              [] \<Rightarrow> [[c]]
            | seg # segs \<Rightarrow> (c # seg) # segs))"

text \<open>
  \<open>strconv.Atoi(s)\<close> is \<open>ParseInt(s, 10, 0)\<close> converted to \<open>int\<close>: an optional sign,
  then \<open>ParseUint\<close> on the rest, then the range of a signed integer of
  \<open>strconv.IntSize\<close> bits. \<open>IntSize\<close> is 32 or 64 with the platform, so it is a
  parameter here. \<open>ParseUint\<close> in base 10 reads the bytes from the left, stops with a
  syntax error at the first byte that is not a decimal digit, and with a range error
  as soon as the number read no more fits \<open>bitSize\<close> bits.
\<close>

datatype num_error = ErrSyntax | ErrRange

definition is_digit :: "char \<Rightarrow> bool" where
  "is_digit c = (of_char (CHR ''0'') \<le> (of_char c :: nat) \<and> (of_char c :: nat) \<le> of_char (CHR ''9''))"

definition digit_val :: "char \<Rightarrow> nat" where
  "digit_val c = of_char c - of_char (CHR ''0'')"

fun uint_loop :: "nat \<Rightarrow> nat \<Rightarrow> string \<Rightarrow> num_error + nat" where
  "uint_loop bitSize n [] = Inr n"
| "uint_loop bitSize n (c # cs) =
     (if \<not> is_digit c then Inl ErrSyntax
      else if 2 ^ bitSize \<le> n * 10 + digit_val c then Inl ErrRange
      else uint_loop bitSize (n * 10 + digit_val c) cs)"

definition ParseUint :: "string \<Rightarrow> nat \<Rightarrow> num_error + nat" where
  "ParseUint s bitSize = (if s = [] then Inl ErrSyntax else uint_loop bitSize 0 s)"

definition ParseInt :: "string \<Rightarrow> nat \<Rightarrow> num_error + int" where
  "ParseInt s bitSize =
     (case s of
        [] \<Rightarrow> Inl ErrSyntax
      | c # cs \<Rightarrow>
          (let neg = (c = CHR ''-'');
               s1 = (if c = CHR ''+'' \<or> c = CHR ''-'' then cs else s)
           in case ParseUint s1 bitSize of
                Inl err \<Rightarrow> Inl err
              | Inr un \<Rightarrow>
                  if \<not> neg \<and> 2 ^ (bitSize - 1) \<le> un then Inl ErrRange
                  else if neg \<and> 2 ^ (bitSize - 1) < un then Inl ErrRange
                  else Inr (if neg then - int un else int un)))"

definition Atoi :: "nat \<Rightarrow> string \<Rightarrow> num_error + int" where
  "Atoi intSize s = ParseInt s intSize"

text \<open>The verb \<open>%d\<close> of \<open>fmt\<close>: a decimal numeral, with a minus sign when negative.\<close>

definition digit_char :: "nat \<Rightarrow> char" where
  "digit_char d = ''0123456789'' ! d"

fun utoa :: "nat \<Rightarrow> string" where
  "utoa n = (if n < 10 then [digit_char n] else utoa (n div 10) @ [digit_char (n mod 10)])"

declare utoa.simps [simp del]

definition fmt_d :: "int \<Rightarrow> string" where
  "fmt_d i = (if i < 0 then CHR ''-'' # utoa (nat (- i)) else utoa (nat i))"

text \<open>
  Numerals as strings. A decimal numeral is a non-empty string of decimal digits;
  \<open>decimal_value\<close> is the number it denotes. A signed numeral is a decimal numeral
  with at most one sign in front. The white space bytes are those of ASCII.
\<close>

fun decimal_from :: "nat \<Rightarrow> string \<Rightarrow> nat" where
  "decimal_from n [] = n"
| "decimal_from n (c # cs) = decimal_from (n * 10 + digit_val c) cs"

definition decimal_value :: "string \<Rightarrow> nat" where
  "decimal_value s = decimal_from 0 s"

definition is_decimal :: "string \<Rightarrow> bool" where
  "is_decimal s = (s \<noteq> [] \<and> list_all is_digit s)"

definition signed_decimal :: "string \<Rightarrow> bool" where
  "signed_decimal s =
     (case s of
        [] \<Rightarrow> False
      | c # cs \<Rightarrow> if c = CHR ''+'' \<or> c = CHR ''-'' then is_decimal cs else is_decimal s)"

definition is_space :: "char \<Rightarrow> bool" where
  "is_space c = (c \<in> set [CHR '' '', CHR 0x09, CHR 0x0A, CHR 0x0B, CHR 0x0C, CHR 0x0D])"

definition quote :: string where
  "quote = [CHR 0x27]"

subsection \<open>Compatibility of two documents\<close>

definition incompatible_transform :: error where
  "incompatible_transform =
     ErrorString (''files with '' @ quote @ TransformKey @ '': true'' @ quote @ '' (default) and ''
       @ quote @ TransformKey @ '': false'' @ quote @ '' are not compatible'')"

definition CompatibleTransform :: "document \<Rightarrow> document \<Rightarrow> error option outcome" where
  "CompatibleTransform data1 data2 =
     (if data1 = None then Panic ''expected 'data1' to be non-nil''
      else if data2 = None then Panic ''expected 'data2' to be non-nil''
      else
        (case (if index data1 TransformKey \<noteq> JNil then GetBoolField data1 TransformKey
               else Inr True) of
           Inl err \<Rightarrow> Returned (Some err)
         | Inr transform1 \<Rightarrow>
             (case (if index data2 TransformKey \<noteq> JNil then GetBoolField data2 TransformKey
                    else Inr True) of
                Inl err \<Rightarrow> Returned (Some err)
              | Inr transform2 \<Rightarrow>
                  if transform1 \<noteq> transform2 then Returned (Some incompatible_transform)
                  else Returned None)))"

text \<open>
  The value a document's \<open>_transform\<close> flag resolves to in \<open>CompatibleTransform\<close>:
  the default \<open>true\<close> when \<open>data[TransformKey]\<close> is nil (the key is absent, or holds
  nil), the boolean itself when the key holds one, and none when it holds anything
  else.
\<close>

definition resolved_transform :: "(string \<rightharpoonup> jvalue) \<Rightarrow> bool option" where
  "resolved_transform m =
     (case m TransformKey of
        None \<Rightarrow> Some True
      | Some JNil \<Rightarrow> Some True
      | Some (JBool b) \<Rightarrow> Some b
      | Some _ \<Rightarrow> None)"

definition format_error :: error where
  "format_error =
     ErrorString (''expected field '' @ quote @ ''.'' @ VersionKey @ quote
       @ '' to be a string in 'x.y' format'')"

text \<open>
  \<open>elem[0]\<close> panics on an empty slice; \<open>Split\<close> never returns one, and the branch is
  there because the index expression is.
\<close>

definition ParseFormatVersion :: "nat \<Rightarrow> document \<Rightarrow> (error + int \<times> int) outcome" where
  "ParseFormatVersion intSize data =
     (case GetStringField data VersionKey of
        Inl err \<Rightarrow> Returned (Inl format_error)
      | Inr v \<Rightarrow>
          (let elem = Split v (CHR ''.'') in
           if 2 < length elem then Returned (Inl format_error)
           else
             (case elem of
                [] \<Rightarrow> Panic ''index out of range [0] with length 0''
              | elem0 # rest \<Rightarrow>
                  (case Atoi intSize elem0 of
                     Inl err \<Rightarrow> Returned (Inl format_error)
                   | Inr majorVersion \<Rightarrow>
                       if 1 < length elem then
                         (case Atoi intSize (elem ! 1) of
                            Inl err \<Rightarrow> Returned (Inl format_error)
                          | Inr minorVersion \<Rightarrow> Returned (Inr (majorVersion, minorVersion)))
                       else Returned (Inr (majorVersion, 0))))))"

text \<open>\<open>_, _, err := ParseFormatVersion(data); return err\<close>\<close>

definition version_error :: "(error + int \<times> int) outcome \<Rightarrow> error option outcome" where
  "version_error r =
     (case r of
        Panic m \<Rightarrow> Panic m
      | Returned (Inl err) \<Rightarrow> Returned (Some err)
      | Returned (Inr v) \<Rightarrow> Returned None)"

definition incompatible_major :: "int \<Rightarrow> int \<Rightarrow> int \<Rightarrow> int \<Rightarrow> error" where
  "incompatible_major major1 minor1 major2 minor2 =
     ErrorString (''major versions are incompatible; '' @ fmt_d major1 @ ''.'' @ fmt_d minor1
       @ '' and '' @ fmt_d major2 @ ''.'' @ fmt_d minor2)"

definition CompatibleVersion :: "nat \<Rightarrow> document \<Rightarrow> document \<Rightarrow> error option outcome" where
  "CompatibleVersion intSize data1 data2 =
     (if data1 = None then Panic ''expected 'data1' to be non-nil''
      else if data2 = None then Panic ''expected 'data2' to be non-nil''
      else if index data1 VersionKey = JNil then
        (if index data2 VersionKey = JNil then Returned None
         else version_error (ParseFormatVersion intSize data2))
      else if index data2 VersionKey = JNil then
        version_error (ParseFormatVersion intSize data1)
      else
        (case ParseFormatVersion intSize data1 of
           Panic m \<Rightarrow> Panic m
         | Returned (Inl err1) \<Rightarrow> Returned (Some err1)
         | Returned (Inr (major1, minor1)) \<Rightarrow>
             (case ParseFormatVersion intSize data2 of
                Panic m \<Rightarrow> Panic m
              | Returned (Inl err2) \<Rightarrow> Returned (Some err2)
              | Returned (Inr (major2, minor2)) \<Rightarrow>
                  if major1 \<noteq> major2
                  then Returned (Some (incompatible_major major1 minor1 major2 minor2))
                  else Returned None)))"

definition CompatibleFile :: "nat \<Rightarrow> document \<Rightarrow> document \<Rightarrow> error option outcome" where
  "CompatibleFile intSize data1 data2 =
     (case CompatibleTransform data1 data2 of
        Panic m \<Rightarrow> Panic m
      | Returned (Some err) \<Rightarrow> Returned (Some (WrapError ''files are incompatible; '' err))
      | Returned None \<Rightarrow>
          (case CompatibleVersion intSize data1 data2 of
             Panic m \<Rightarrow> Panic m
           | Returned (Some err) \<Rightarrow> Returned (Some (WrapError ''files are incompatible; '' err))
           | Returned None \<Rightarrow> Returned None))"

subsection \<open>History of a document\<close>

text \<open>
  The functions that allocate take the allocator's next unused address and return the
  new one with their result. \<open>make([]interface{}, 0)\<close> and the slice literal each take
  one address for their store.
\<close>

definition HistoryGet :: "document \<Rightarrow> addr \<Rightarrow> slice \<times> addr" where
  "HistoryGet filedata n =
     (if filedata = None \<or> index filedata HistoryKey = JNil then ((n, []), Suc n)
      else
        (case ToArray (index filedata HistoryKey) of
           Inr trackInfo \<Rightarrow> DeepCopyArray trackInfo n
         | Inl err \<Rightarrow> DeepCopyArray (n, [index filedata HistoryKey]) (Suc n)))"

text \<open>\<open>delete\<close> on a nil map does nothing.\<close>

definition HistoryClear :: "document \<Rightarrow> document" where
  "HistoryClear filedata =
     (case filedata of
        None \<Rightarrow> None
      | Some m \<Rightarrow> Some (m(HistoryKey := None)))"

text \<open>An assignment to an entry of a nil map panics.\<close>

definition HistorySet :: "document \<Rightarrow> slice option \<Rightarrow> document outcome" where
  "HistorySet filedata historyArray =
     (case historyArray of
        None \<Rightarrow> Returned (HistoryClear filedata)
      | Some (a, xs) \<Rightarrow>
          (case filedata of
             None \<Rightarrow> Panic ''assignment to entry in nil map''
           | Some m \<Rightarrow> Returned (HistoryClear (Some (m(HistoryKey \<mapsto> JArray a xs))))))"

text \<open>
  \<open>append\<close> returns a slice that is never nil; the model has it take a new store for
  the longer slice.
\<close>

definition HistoryAppend :: "document \<Rightarrow> jvalue \<Rightarrow> addr \<Rightarrow> (document \<times> addr) outcome" where
  "HistoryAppend filedata newEntry n =
     (case HistoryGet filedata n of
        ((a, xs), n1) \<Rightarrow>
          (case HistorySet filedata (Some (n1, xs @ [newEntry])) of
             Panic m \<Rightarrow> Panic m
           | Returned filedata' \<Rightarrow> Returned (filedata', Suc n1)))"

section \<open>Properties\<close>

lemma reachable_name: "reachable s \<Longrightarrow> (name s = '''') = (s = toolInfo_init)"
proof (induction rule: reachable.induct)
  case start
  show ?case by (simp add: toolInfo_init_def)
next
  case (set s n v c s')
  from set.hyps(2) have "name s' \<noteq> ''''"
    by (auto simp: ToolVersionSet_def split: if_splits)
  moreover from this have "s' \<noteq> toolInfo_init"
    by (auto simp: toolInfo_init_def)
  ultimately show ?case by simp
qed

lemma ToolVersionSet_Returned:
  "ToolVersionSet s n v c = Returned s' \<longleftrightarrow>
     name s = '''' \<and> n \<noteq> '''' \<and> s' = \<lparr>name = n, version = v, commit = c\<rparr>"
  by (cases s) (auto simp: ToolVersionSet_def)

lemma ToolVersionSet_Panic:
  "(\<exists>m. ToolVersionSet s n v c = Panic m) \<longleftrightarrow> name s \<noteq> '''' \<or> n = ''''"
  by (auto simp: ToolVersionSet_def)

lemma ToolVersionGet_Panic:
  "(\<exists>m. ToolVersionGet s = Panic m) \<longleftrightarrow> name s = ''''"
  by (auto simp: ToolVersionGet_def)

text \<open>
  C7. The tool identity is write-once. In a state the program can reach,
  \<open>ToolVersionSet\<close> panics exactly when the given name is empty or an identity was
  set before, and otherwise stores the three strings; \<open>ToolVersionGet\<close> panics exactly
  when no identity was set, and otherwise returns the stored strings as they are.
\<close>

theorem tool_identity_write_once:
  assumes "reachable s"
  shows "((\<exists>m. ToolVersionSet s n v c = Panic m) \<longleftrightarrow> (n = '''' \<or> s \<noteq> toolInfo_init))
       \<and> (n \<noteq> '''' \<and> s = toolInfo_init \<longrightarrow>
            ToolVersionSet s n v c = Returned \<lparr>name = n, version = v, commit = c\<rparr>
          \<and> ToolVersionGet \<lparr>name = n, version = v, commit = c\<rparr> = Returned (n, v, c))
       \<and> ((\<exists>m. ToolVersionGet s = Panic m) \<longleftrightarrow> s = toolInfo_init)
       \<and> (s \<noteq> toolInfo_init \<longrightarrow> ToolVersionGet s = Returned (name s, version s, commit s))"
proof -
  from assms have init: "(name s = '''') = (s = toolInfo_init)"
    by (rule reachable_name)
  have "(\<exists>m. ToolVersionSet s n v c = Panic m) \<longleftrightarrow> (n = '''' \<or> s \<noteq> toolInfo_init)"
    using init by (auto simp: ToolVersionSet_Panic)
  moreover have "n \<noteq> '''' \<and> s = toolInfo_init \<longrightarrow>
      ToolVersionSet s n v c = Returned \<lparr>name = n, version = v, commit = c\<rparr>
    \<and> ToolVersionGet \<lparr>name = n, version = v, commit = c\<rparr> = Returned (n, v, c)"
    by (simp add: ToolVersionSet_def ToolVersionGet_def toolInfo_init_def)
  moreover have "(\<exists>m. ToolVersionGet s = Panic m) \<longleftrightarrow> s = toolInfo_init"
    using init by (simp add: ToolVersionGet_Panic)
  moreover have "s \<noteq> toolInfo_init \<longrightarrow> ToolVersionGet s = Returned (name s, version s, commit s)"
    using init by (simp add: ToolVersionGet_def)
  ultimately show ?thesis by blast
qed

lemma reachable_kced: "reachable \<lparr>name = ''kced'', version = ''1.0'', commit = ''abc123''\<rparr>"
  by (rule reachable.set [OF reachable.start, of "''kced''" "''1.0''" "''abc123''"])
     (simp add: ToolVersionSet_def toolInfo_init_def)

theorem tool_identity_write_once_witness:
  "reachable \<lparr>name = ''kced'', version = ''1.0'', commit = ''abc123''\<rparr>
   \<and> (\<exists>m. ToolVersionSet \<lparr>name = ''kced'', version = ''1.0'', commit = ''abc123''\<rparr>
             ''deck'' ''2.0'' '''' = Panic m)
   \<and> ToolVersionGet \<lparr>name = ''kced'', version = ''1.0'', commit = ''abc123''\<rparr>
       = Returned (''kced'', ''1.0'', ''abc123'')"
  using tool_identity_write_once [OF reachable_kced, of "''deck''" "''2.0''" "''''"] reachable_kced
  by (simp add: toolInfo_init_def)

text \<open>
  C6 (as the code has it). With an identity stored, \<open>ToolVersionString\<close> returns
  "name version (commit)" whenever the commit is not empty, also when the version is
  empty; "name version" when the commit is empty and the version is not; and the name
  alone when both are empty.
\<close>

theorem tool_version_string_cases:
  assumes "reachable s" and "s \<noteq> toolInfo_init"
  shows "(commit s \<noteq> '''' \<longrightarrow>
            ToolVersionString s = Returned (name s @ '' '' @ version s @ '' ('' @ commit s @ '')''))
       \<and> (commit s = '''' \<and> version s \<noteq> '''' \<longrightarrow>
            ToolVersionString s = Returned (name s @ '' '' @ version s))
       \<and> (commit s = '''' \<and> version s = '''' \<longrightarrow> ToolVersionString s = Returned (name s))"
proof -
  from assms have "name s \<noteq> ''''"
    by (simp add: reachable_name)
  then show ?thesis
    by (simp add: ToolVersionString_def ToolVersionGet_def)
qed

lemma reachable_no_version: "reachable \<lparr>name = ''kced'', version = '''', commit = ''abc''\<rparr>"
  by (rule reachable.set [OF reachable.start, of "''kced''" "''''" "''abc''"])
     (simp add: ToolVersionSet_def toolInfo_init_def)

theorem tool_version_string_cases_witness:
  "reachable \<lparr>name = ''kced'', version = ''1.0'', commit = ''abc123''\<rparr>
   \<and> \<lparr>name = ''kced'', version = ''1.0'', commit = ''abc123''\<rparr> \<noteq> toolInfo_init
   \<and> ToolVersionString \<lparr>name = ''kced'', version = ''1.0'', commit = ''abc123''\<rparr>
       = Returned ''kced 1.0 (abc123)''"
  using tool_version_string_cases [OF reachable_kced] reachable_kced
  by (simp add: toolInfo_init_def)

theorem tool_version_string_counterexample:
  "reachable \<lparr>name = ''kced'', version = '''', commit = ''abc''\<rparr>
   \<and> ToolVersionString \<lparr>name = ''kced'', version = '''', commit = ''abc''\<rparr>
       = Returned ''kced  (abc)''
   \<and> ToolVersionString \<lparr>name = ''kced'', version = '''', commit = ''abc''\<rparr>
       \<noteq> Returned ''kced''"
  using reachable_no_version
  by (simp add: ToolVersionString_def ToolVersionGet_def)

subsection \<open>History\<close>

lemma HistoryClear_Some: "HistoryClear (Some m) = Some (m(HistoryKey := None))"
  by (simp add: HistoryClear_def)

lemma HistorySet_Some:
  "HistorySet (Some m) h = Returned (Some (m(HistoryKey := None)))"
  by (cases h) (auto simp: HistorySet_def HistoryClear_def)

lemma HistoryGet_no_value:
  "index filedata HistoryKey = JNil \<Longrightarrow> HistoryGet filedata n = ((n, []), Suc n)"
  by (simp add: HistoryGet_def)

lemma HistoryGet_nil_map: "HistoryGet None n = ((n, []), Suc n)"
  by (simp add: HistoryGet_def)

lemma HistoryAppend_Some:
  "HistoryAppend (Some m) newEntry n =
     Returned (Some (m(HistoryKey := None)), Suc (snd (HistoryGet (Some m) n)))"
  by (simp add: HistoryAppend_def HistorySet_Some split: prod.splits)

text \<open>
  C2. Whatever the document (not nil) and whatever the entries (a nil slice, an empty
  one, or any other), \<open>HistorySet\<close>, \<open>HistoryAppend\<close> and \<open>HistoryClear\<close> return and
  leave the document without the key \<open>_ignore\<close>; and \<open>HistoryGet\<close> right after
  \<open>HistoryAppend\<close>, on the document it left, gives a slice with no element.
\<close>

theorem history_key_never_kept:
  "(\<exists>m'. HistorySet (Some m) historyArray = Returned (Some m') \<and> HistoryKey \<notin> dom m')
   \<and> (\<exists>m' n'. HistoryAppend (Some m) newEntry n = Returned (Some m', n')
          \<and> HistoryKey \<notin> dom m'
          \<and> snd (fst (HistoryGet (Some m') n')) = [])
   \<and> (\<exists>m'. HistoryClear (Some m) = Some m' \<and> HistoryKey \<notin> dom m')"
proof -
  have absent: "index (Some (m(HistoryKey := None))) HistoryKey = JNil"
    by (simp add: index_def)
  have "snd (fst (HistoryGet (Some (m(HistoryKey := None))) k)) = []" for k
    by (simp add: HistoryGet_no_value [OF absent])
  then show ?thesis
    by (simp add: HistorySet_Some HistoryAppend_Some HistoryClear_Some)
qed

subsection \<open>Compatibility by \<open>_transform\<close>\<close>

lemma CompatibleTransform_resolved:
  "CompatibleTransform (Some m1) (Some m2) =
     (case resolved_transform m1 of
        None \<Rightarrow> Returned (Some (FieldError TransformKey))
      | Some b1 \<Rightarrow>
          (case resolved_transform m2 of
             None \<Rightarrow> Returned (Some (FieldError TransformKey))
           | Some b2 \<Rightarrow>
               if b1 \<noteq> b2 then Returned (Some incompatible_transform) else Returned None))"
  by (simp add: CompatibleTransform_def resolved_transform_def GetBoolField_def index_def
      split: option.splits jvalue.splits)

lemma resolved_transform_None:
  "resolved_transform m = None \<longleftrightarrow>
     (\<exists>v. m TransformKey = Some v \<and> v \<noteq> JNil \<and> (\<forall>b. v \<noteq> JBool b))"
  by (auto simp: resolved_transform_def split: option.splits jvalue.splits)

lemma GetBoolField_not_bool:
  "m TransformKey = Some v \<Longrightarrow> \<forall>b. v \<noteq> JBool b \<Longrightarrow>
     GetBoolField (Some m) TransformKey = Inl (FieldError TransformKey)"
  by (cases v) (auto simp: GetBoolField_def index_def)

text \<open>
  C5. For two documents that are not nil: a document without the key \<open>_transform\<close>
  has its flag resolved to true; \<open>CompatibleTransform\<close> returns the incompatibility
  error exactly when both flags resolve and the two booleans differ, and returns no
  error exactly when both resolve and the two booleans are equal.
\<close>

theorem compatible_transform_rule:
  "(m1 TransformKey = None \<longrightarrow> resolved_transform m1 = Some True)
   \<and> (m2 TransformKey = None \<longrightarrow> resolved_transform m2 = Some True)
   \<and> (CompatibleTransform (Some m1) (Some m2) = Returned (Some incompatible_transform)
        \<longleftrightarrow> (\<exists>b1 b2. resolved_transform m1 = Some b1 \<and> resolved_transform m2 = Some b2
                       \<and> b1 \<noteq> b2))
   \<and> (CompatibleTransform (Some m1) (Some m2) = Returned None
        \<longleftrightarrow> (\<exists>b. resolved_transform m1 = Some b \<and> resolved_transform m2 = Some b))"
proof -
  have "m TransformKey = None \<longrightarrow> resolved_transform m = Some True" for m
    by (simp add: resolved_transform_def)
  moreover have "CompatibleTransform (Some m1) (Some m2) = Returned (Some incompatible_transform)
        \<longleftrightarrow> (\<exists>b1 b2. resolved_transform m1 = Some b1 \<and> resolved_transform m2 = Some b2
                       \<and> b1 \<noteq> b2)"
    by (auto simp: CompatibleTransform_resolved incompatible_transform_def
        split: option.splits)
  moreover have "CompatibleTransform (Some m1) (Some m2) = Returned None
        \<longleftrightarrow> (\<exists>b. resolved_transform m1 = Some b \<and> resolved_transform m2 = Some b)"
    by (auto simp: CompatibleTransform_resolved split: option.splits)
  ultimately show ?thesis by blast
qed

theorem compatible_transform_rule_witness:
  "Map.empty TransformKey = None
   \<and> resolved_transform Map.empty = Some True
   \<and> resolved_transform [TransformKey \<mapsto> JBool False] = Some False
   \<and> CompatibleTransform (Some Map.empty) (Some [TransformKey \<mapsto> JBool False])
       = Returned (Some incompatible_transform)
   \<and> CompatibleTransform (Some Map.empty) (Some [TransformKey \<mapsto> JBool True])
       = Returned None"
proof -
  have r: "resolved_transform Map.empty = Some True"
    "resolved_transform [TransformKey \<mapsto> JBool False] = Some False"
    "resolved_transform [TransformKey \<mapsto> JBool True] = Some True"
    by (simp_all add: resolved_transform_def)
  have "CompatibleTransform (Some Map.empty) (Some [TransformKey \<mapsto> JBool False])
       = Returned (Some incompatible_transform)"
    using compatible_transform_rule [of Map.empty "[TransformKey \<mapsto> JBool False]"] r
    by auto
  moreover have "CompatibleTransform (Some Map.empty) (Some [TransformKey \<mapsto> JBool True])
       = Returned None"
    using compatible_transform_rule [of Map.empty "[TransformKey \<mapsto> JBool True]"] r
    by auto
  ultimately show ?thesis using r by simp
qed

lemma CompatibleTransform_first_error:
  assumes "index (Some m1) TransformKey \<noteq> JNil"
    and "GetBoolField (Some m1) TransformKey = Inl e"
  shows "CompatibleTransform (Some m1) (Some m2) = Returned (Some e)"
  using assms by (simp add: CompatibleTransform_def)

lemma CompatibleTransform_second_error:
  assumes "index (Some m1) TransformKey = JNil \<or> GetBoolField (Some m1) TransformKey = Inr b"
    and "index (Some m2) TransformKey \<noteq> JNil"
    and "GetBoolField (Some m2) TransformKey = Inl e"
  shows "CompatibleTransform (Some m1) (Some m2) = Returned (Some e)"
  using assms by (auto simp: CompatibleTransform_def)

text \<open>
  C10. When the key \<open>_transform\<close> of one of the two documents holds a value that is
  neither nil nor a boolean, \<open>CompatibleTransform\<close> returns: its result is the error
  that \<open>GetBoolField\<close> gave for that key, which is not the incompatibility error.
  The flags are not compared: an error from reading the first document's flag is the
  result whatever the second document is, and an error from reading the second
  document's flag is the result whatever the first flag was read as.
\<close>

theorem compatible_transform_field_error:
  assumes "m1 TransformKey = Some v \<or> m2 TransformKey = Some v"
    and "v \<noteq> JNil" and "\<forall>b. v \<noteq> JBool b"
  shows "(\<exists>m. (m = m1 \<or> m = m2) \<and> m TransformKey = Some v
             \<and> GetBoolField (Some m) TransformKey = Inl (FieldError TransformKey))
       \<and> CompatibleTransform (Some m1) (Some m2) = Returned (Some (FieldError TransformKey))
       \<and> FieldError TransformKey \<noteq> incompatible_transform
       \<and> (\<forall>e other. index (Some m1) TransformKey \<noteq> JNil
              \<and> GetBoolField (Some m1) TransformKey = Inl e \<longrightarrow>
            CompatibleTransform (Some m1) (Some other) = Returned (Some e))
       \<and> (\<forall>e b. (index (Some m1) TransformKey = JNil
                \<or> GetBoolField (Some m1) TransformKey = Inr b)
              \<and> index (Some m2) TransformKey \<noteq> JNil
              \<and> GetBoolField (Some m2) TransformKey = Inl e \<longrightarrow>
            CompatibleTransform (Some m1) (Some m2) = Returned (Some e))"
proof -
  from assms have bad: "resolved_transform m1 = None \<or> resolved_transform m2 = None"
    by (auto simp: resolved_transform_None)
  have result: "CompatibleTransform (Some m1) (Some m2) = Returned (Some (FieldError TransformKey))"
    using bad by (auto simp: CompatibleTransform_resolved split: option.splits)
  have read: "\<exists>m. (m = m1 \<or> m = m2) \<and> m TransformKey = Some v
             \<and> GetBoolField (Some m) TransformKey = Inl (FieldError TransformKey)"
    using assms(1,3) GetBoolField_not_bool by blast
  have other: "FieldError TransformKey \<noteq> incompatible_transform"
    by (simp add: incompatible_transform_def)
  have first: "\<forall>e other. index (Some m1) TransformKey \<noteq> JNil
              \<and> GetBoolField (Some m1) TransformKey = Inl e \<longrightarrow>
            CompatibleTransform (Some m1) (Some other) = Returned (Some e)"
    using CompatibleTransform_first_error by blast
  have second: "\<forall>e b. (index (Some m1) TransformKey = JNil
                \<or> GetBoolField (Some m1) TransformKey = Inr b)
              \<and> index (Some m2) TransformKey \<noteq> JNil
              \<and> GetBoolField (Some m2) TransformKey = Inl e \<longrightarrow>
            CompatibleTransform (Some m1) (Some m2) = Returned (Some e)"
    using CompatibleTransform_second_error by blast
  from read result other first second show ?thesis
    by (intro conjI)
qed

theorem compatible_transform_field_error_witness:
  "[TransformKey \<mapsto> JBool True] TransformKey \<noteq> Some (JString ''yes'')
   \<and> [TransformKey \<mapsto> JString ''yes''] TransformKey = Some (JString ''yes'')
   \<and> JString ''yes'' \<noteq> JNil \<and> (\<forall>b. JString ''yes'' \<noteq> JBool b)
   \<and> CompatibleTransform (Some [TransformKey \<mapsto> JBool True])
        (Some [TransformKey \<mapsto> JString ''yes''])
       = Returned (Some (FieldError TransformKey))"
  using compatible_transform_field_error
    [of "[TransformKey \<mapsto> JBool True]" "JString ''yes''" "[TransformKey \<mapsto> JString ''yes'']"]
  by simp

subsection \<open>Compatibility by \<open>_format_version\<close>\<close>

lemma Split_not_Nil: "Split s sep \<noteq> []"
  by (induction s) (auto split: list.splits)

lemma ParseFormatVersion_returns: "\<exists>r. ParseFormatVersion intSize data = Returned r"
  by (auto simp: ParseFormatVersion_def Let_def Split_not_Nil split: sum.splits list.splits)

lemma index_absent: "m k = None \<Longrightarrow> index (Some m) k = JNil"
  by (simp add: index_def)

lemma ParseFormatVersion_nil_value:
  "index data VersionKey = JNil \<Longrightarrow> ParseFormatVersion intSize data = Returned (Inl format_error)"
  by (simp add: ParseFormatVersion_def GetStringField_def)

lemma version_error_None:
  "version_error r = Returned None \<longleftrightarrow> (\<exists>v. r = Returned (Inr v))"
  by (auto simp: version_error_def split: outcome.splits sum.splits)

lemma CompatibleVersion_both:
  assumes "index (Some m1) VersionKey \<noteq> JNil" and "index (Some m2) VersionKey \<noteq> JNil"
  shows "CompatibleVersion intSize (Some m1) (Some m2) = Returned None \<longleftrightarrow>
     (\<exists>major minor1 minor2.
         ParseFormatVersion intSize (Some m1) = Returned (Inr (major, minor1))
       \<and> ParseFormatVersion intSize (Some m2) = Returned (Inr (major, minor2)))"
  using assms
  by (auto simp: CompatibleVersion_def split: outcome.splits sum.splits)

lemma CompatibleVersion_mismatch:
  assumes "ParseFormatVersion intSize (Some m1) = Returned (Inr (major1, minor1))"
    and "ParseFormatVersion intSize (Some m2) = Returned (Inr (major2, minor2))"
    and "major1 \<noteq> major2"
  shows "CompatibleVersion intSize (Some m1) (Some m2)
           = Returned (Some (incompatible_major major1 minor1 major2 minor2))"
proof -
  from assms(1) have "index (Some m1) VersionKey \<noteq> JNil"
    using ParseFormatVersion_nil_value [of "Some m1" intSize] by auto
  moreover from assms(2) have "index (Some m2) VersionKey \<noteq> JNil"
    using ParseFormatVersion_nil_value [of "Some m2" intSize] by auto
  ultimately show ?thesis
    using assms by (simp add: CompatibleVersion_def)
qed

text \<open>
  C1 (as the code has it). For two documents that are not nil, \<open>CompatibleVersion\<close>
  takes a document to declare a version when \<open>data[VersionKey]\<close> is not nil: a key
  that holds nil counts as absent. It returns no error when neither document has the
  key; when exactly one declares a version, it returns no error exactly when that
  document's version parses; when both declare one, exactly when both parse and the
  two majors are equal, whatever the minors. When both parse and the majors differ,
  the error's message gives both versions as major.minor.
\<close>

theorem compatible_version_rule:
  "(VersionKey \<notin> dom m1 \<and> VersionKey \<notin> dom m2 \<longrightarrow>
      CompatibleVersion intSize (Some m1) (Some m2) = Returned None)
   \<and> (index (Some m1) VersionKey = JNil \<and> index (Some m2) VersionKey = JNil \<longrightarrow>
      CompatibleVersion intSize (Some m1) (Some m2) = Returned None)
   \<and> (index (Some m1) VersionKey \<noteq> JNil \<and> index (Some m2) VersionKey = JNil \<longrightarrow>
      (CompatibleVersion intSize (Some m1) (Some m2) = Returned None
        \<longleftrightarrow> (\<exists>v. ParseFormatVersion intSize (Some m1) = Returned (Inr v))))
   \<and> (index (Some m1) VersionKey = JNil \<and> index (Some m2) VersionKey \<noteq> JNil \<longrightarrow>
      (CompatibleVersion intSize (Some m1) (Some m2) = Returned None
        \<longleftrightarrow> (\<exists>v. ParseFormatVersion intSize (Some m2) = Returned (Inr v))))
   \<and> (index (Some m1) VersionKey \<noteq> JNil \<and> index (Some m2) VersionKey \<noteq> JNil \<longrightarrow>
      (CompatibleVersion intSize (Some m1) (Some m2) = Returned None
        \<longleftrightarrow> (\<exists>major minor1 minor2.
               ParseFormatVersion intSize (Some m1) = Returned (Inr (major, minor1))
             \<and> ParseFormatVersion intSize (Some m2) = Returned (Inr (major, minor2)))))
   \<and> (\<forall>major1 minor1 major2 minor2.
        ParseFormatVersion intSize (Some m1) = Returned (Inr (major1, minor1))
      \<and> ParseFormatVersion intSize (Some m2) = Returned (Inr (major2, minor2))
      \<and> major1 \<noteq> major2 \<longrightarrow>
        (\<exists>err. CompatibleVersion intSize (Some m1) (Some m2) = Returned (Some err)
           \<and> Error ft err = ''major versions are incompatible; ''
                @ fmt_d major1 @ ''.'' @ fmt_d minor1 @ '' and ''
                @ fmt_d major2 @ ''.'' @ fmt_d minor2))"
proof -
  have neither: "index (Some m1) VersionKey = JNil \<and> index (Some m2) VersionKey = JNil \<longrightarrow>
      CompatibleVersion intSize (Some m1) (Some m2) = Returned None"
    by (simp add: CompatibleVersion_def)
  then have absent: "VersionKey \<notin> dom m1 \<and> VersionKey \<notin> dom m2 \<longrightarrow>
      CompatibleVersion intSize (Some m1) (Some m2) = Returned None"
    by (auto simp: index_absent)
  have first: "index (Some m1) VersionKey \<noteq> JNil \<and> index (Some m2) VersionKey = JNil \<longrightarrow>
      (CompatibleVersion intSize (Some m1) (Some m2) = Returned None
        \<longleftrightarrow> (\<exists>v. ParseFormatVersion intSize (Some m1) = Returned (Inr v)))"
    by (simp add: CompatibleVersion_def version_error_None)
  have second: "index (Some m1) VersionKey = JNil \<and> index (Some m2) VersionKey \<noteq> JNil \<longrightarrow>
      (CompatibleVersion intSize (Some m1) (Some m2) = Returned None
        \<longleftrightarrow> (\<exists>v. ParseFormatVersion intSize (Some m2) = Returned (Inr v)))"
    by (simp add: CompatibleVersion_def version_error_None)
  have mismatch: "\<exists>err. CompatibleVersion intSize (Some m1) (Some m2) = Returned (Some err)
           \<and> Error ft err = ''major versions are incompatible; ''
                @ fmt_d major1 @ ''.'' @ fmt_d minor1 @ '' and ''
                @ fmt_d major2 @ ''.'' @ fmt_d minor2"
    if "ParseFormatVersion intSize (Some m1) = Returned (Inr (major1, minor1))"
      and "ParseFormatVersion intSize (Some m2) = Returned (Inr (major2, minor2))"
      and "major1 \<noteq> major2" for major1 minor1 major2 minor2
    using CompatibleVersion_mismatch [OF that] by (simp add: incompatible_major_def)
  show ?thesis
    using absent neither first second CompatibleVersion_both [of m1 m2 intSize] mismatch
    by blast
qed

lemmas version_eval =
  ParseFormatVersion_def GetStringField_def index_def VersionKey_def Atoi_def ParseInt_def
  ParseUint_def is_digit_def digit_val_def format_error_def

theorem compatible_version_rule_witness:
  "ParseFormatVersion 64 (Some [VersionKey \<mapsto> JString ''2.1'']) = Returned (Inr (2, 1))
   \<and> ParseFormatVersion 64 (Some [VersionKey \<mapsto> JString ''3'']) = Returned (Inr (3, 0))
   \<and> (2::int) \<noteq> 3
   \<and> (\<exists>err. CompatibleVersion 64 (Some [VersionKey \<mapsto> JString ''2.1''])
               (Some [VersionKey \<mapsto> JString ''3'']) = Returned (Some err)
          \<and> Error (\<lambda>k. k) err = ''major versions are incompatible; 2.1 and 3.0'')"
proof -
  have p1: "ParseFormatVersion 64 (Some [VersionKey \<mapsto> JString ''2.1'']) = Returned (Inr (2, 1))"
    by (simp add: version_eval)
  have p2: "ParseFormatVersion 64 (Some [VersionKey \<mapsto> JString ''3'']) = Returned (Inr (3, 0))"
    by (simp add: version_eval)
  have "fmt_d 2 = ''2''" "fmt_d 1 = ''1''" "fmt_d 3 = ''3''" "fmt_d 0 = ''0''"
    by (simp_all add: fmt_d_def utoa.simps digit_char_def)
  with p1 p2 show ?thesis
    using compatible_version_rule [of "[VersionKey \<mapsto> JString ''2.1'']"
        "[VersionKey \<mapsto> JString ''3'']" 64 "\<lambda>k. k"]
    by simp
qed

theorem compatible_version_nil_counterexample:
  "VersionKey \<in> dom [VersionKey \<mapsto> JNil]
   \<and> VersionKey \<notin> dom (Map.empty :: string \<rightharpoonup> jvalue)
   \<and> ParseFormatVersion 64 (Some [VersionKey \<mapsto> JNil]) = Returned (Inl format_error)
   \<and> CompatibleVersion 64 (Some [VersionKey \<mapsto> JNil]) (Some Map.empty) = Returned None"
  by (simp add: version_eval CompatibleVersion_def)

subsection \<open>Compatibility of two files\<close>

lemma CompatibleTransform_returns: "\<exists>r. CompatibleTransform (Some m1) (Some m2) = Returned r"
  by (simp add: CompatibleTransform_resolved split: option.splits)

lemma CompatibleVersion_returns: "\<exists>r. CompatibleVersion intSize (Some m1) (Some m2) = Returned r"
proof -
  obtain r1 r2 where "ParseFormatVersion intSize (Some m1) = Returned r1"
    and "ParseFormatVersion intSize (Some m2) = Returned r2"
    using ParseFormatVersion_returns by blast
  then show ?thesis
    by (simp add: CompatibleVersion_def version_error_def split: sum.splits)
qed

text \<open>
  C9. For two documents that are not nil, both checks return, and \<open>CompatibleFile\<close>
  \<^item> when the transform check returns an error, returns that error wrapped, whatever
    the version check would give;
  \<^item> when the transform check passes and the version check returns an error, returns
    that error wrapped;
  \<^item> returns no error exactly when both checks return none;
  and the message of a wrapped error is "files are incompatible; " followed by the
  message of the error it wraps.
\<close>

theorem compatible_file_rule:
  "(\<exists>t v. CompatibleTransform (Some m1) (Some m2) = Returned t
         \<and> CompatibleVersion intSize (Some m1) (Some m2) = Returned v)
   \<and> (\<forall>err. CompatibleTransform (Some m1) (Some m2) = Returned (Some err) \<longrightarrow>
        CompatibleFile intSize (Some m1) (Some m2)
          = Returned (Some (WrapError ''files are incompatible; '' err)))
   \<and> (\<forall>err. CompatibleTransform (Some m1) (Some m2) = Returned None
          \<and> CompatibleVersion intSize (Some m1) (Some m2) = Returned (Some err) \<longrightarrow>
        CompatibleFile intSize (Some m1) (Some m2)
          = Returned (Some (WrapError ''files are incompatible; '' err)))
   \<and> (CompatibleFile intSize (Some m1) (Some m2) = Returned None
        \<longleftrightarrow> CompatibleTransform (Some m1) (Some m2) = Returned None
          \<and> CompatibleVersion intSize (Some m1) (Some m2) = Returned None)
   \<and> (\<forall>err. Error ft (WrapError ''files are incompatible; '' err)
          = ''files are incompatible; '' @ Error ft err)"
proof -
  obtain t v where "CompatibleTransform (Some m1) (Some m2) = Returned t"
    and "CompatibleVersion intSize (Some m1) (Some m2) = Returned v"
    using CompatibleTransform_returns CompatibleVersion_returns by blast
  then show ?thesis
    by (cases t; cases v) (simp_all add: CompatibleFile_def)
qed

theorem compatible_file_rule_witness:
  "CompatibleTransform (Some [TransformKey \<mapsto> JBool False, VersionKey \<mapsto> JString ''x''])
       (Some Map.empty) = Returned (Some incompatible_transform)
   \<and> CompatibleFile 64 (Some [TransformKey \<mapsto> JBool False, VersionKey \<mapsto> JString ''x''])
       (Some Map.empty)
       = Returned (Some (WrapError ''files are incompatible; '' incompatible_transform))"
proof -
  have "CompatibleTransform (Some [TransformKey \<mapsto> JBool False, VersionKey \<mapsto> JString ''x''])
       (Some Map.empty) = Returned (Some incompatible_transform)"
    by (simp add: CompatibleTransform_resolved resolved_transform_def TransformKey_def
        VersionKey_def)
  then show ?thesis
    using compatible_file_rule [of "[TransformKey \<mapsto> JBool False, VersionKey \<mapsto> JString ''x'']"
        Map.empty 64 "\<lambda>k. k"]
    by simp
qed

subsection \<open>Reading the history\<close>

lemma deep_copy_content:
  "content (fst (deep_copy v n)) = content v"
  "content_list (fst (deep_copy_list xs n)) = content_list xs"
  "content_fields (fst (deep_copy_fields fs n)) = content_fields fs"
proof (induction v n and xs n and fs n rule: deep_copy_deep_copy_list_deep_copy_fields.induct)
  case (1 a xs n)
  then show ?case by (cases "deep_copy_list xs (Suc n)") simp
next
  case (2 a fs n)
  then show ?case by (cases "deep_copy_fields fs (Suc n)") simp
next
  case (8 x xs n)
  obtain y n1 where y: "deep_copy x n = (y, n1)" by (cases "deep_copy x n")
  obtain ys n2 where ys: "deep_copy_list xs n1 = (ys, n2)" by (cases "deep_copy_list xs n1")
  from "8.IH"(1) "8.IH"(2) [OF y [symmetric]] y ys show ?case by simp
next
  case (10 k x fs n)
  obtain y n1 where y: "deep_copy x n = (y, n1)" by (cases "deep_copy x n")
  obtain gs n2 where gs: "deep_copy_fields fs n1 = (gs, n2)" by (cases "deep_copy_fields fs n1")
  from "10.IH"(1) "10.IH"(2) [OF y [symmetric]] y gs show ?case by simp
qed simp_all

lemma deep_copy_fresh:
  "n \<le> snd (deep_copy v n) \<and> addrs (fst (deep_copy v n)) \<subseteq> {n ..< snd (deep_copy v n)}"
  "n \<le> snd (deep_copy_list xs n)
     \<and> addrs_list (fst (deep_copy_list xs n)) \<subseteq> {n ..< snd (deep_copy_list xs n)}"
  "n \<le> snd (deep_copy_fields fs n)
     \<and> addrs_fields (fst (deep_copy_fields fs n)) \<subseteq> {n ..< snd (deep_copy_fields fs n)}"
proof (induction v n and xs n and fs n rule: deep_copy_deep_copy_list_deep_copy_fields.induct)
  case (1 a xs n)
  then show ?case by (auto split: prod.splits)
next
  case (2 a fs n)
  then show ?case by (auto split: prod.splits)
next
  case (8 x xs n)
  obtain y n1 where y: "deep_copy x n = (y, n1)" by (cases "deep_copy x n")
  obtain ys n2 where ys: "deep_copy_list xs n1 = (ys, n2)" by (cases "deep_copy_list xs n1")
  from "8.IH"(1) y have "n \<le> n1" "addrs y \<subseteq> {n ..< n1}" by simp_all
  moreover from "8.IH"(2) [OF y [symmetric]] y ys
  have "n1 \<le> n2" "addrs_list ys \<subseteq> {n1 ..< n2}" by simp_all
  ultimately show ?case using y ys by auto
next
  case (10 k x fs n)
  obtain y n1 where y: "deep_copy x n = (y, n1)" by (cases "deep_copy x n")
  obtain gs n2 where gs: "deep_copy_fields fs n1 = (gs, n2)" by (cases "deep_copy_fields fs n1")
  from "10.IH"(1) y have "n \<le> n1" "addrs y \<subseteq> {n ..< n1}" by simp_all
  moreover from "10.IH"(2) [OF y [symmetric]] y gs
  have "n1 \<le> n2" "addrs_fields gs \<subseteq> {n1 ..< n2}" by simp_all
  ultimately show ?case using y gs by auto
qed simp_all

lemma DeepCopyArray_content:
  "DeepCopyArray data n = ((a, ys), n') \<Longrightarrow> content_list ys = content_list (snd data)"
  using deep_copy_content(2) [of "snd data" "Suc n"]
  by (auto simp: DeepCopyArray_def split: prod.splits)

lemma DeepCopyArray_fresh:
  assumes "DeepCopyArray data n = ((a, ys), n')"
  shows "insert a (addrs_list ys) \<subseteq> {n ..< n'}"
  using assms deep_copy_fresh(2) [of "Suc n" "snd data"]
  by (auto simp: DeepCopyArray_def split: prod.splits)

lemma index_nil_map: "index None k = JNil"
  by (simp add: index_def)

lemma index_not_nil: "index filedata k \<noteq> JNil \<Longrightarrow> filedata \<noteq> None"
  by (cases filedata) (simp_all add: index_def)

lemma HistoryGet_value:
  "index filedata HistoryKey \<noteq> JNil \<Longrightarrow>
     HistoryGet filedata n =
       (case ToArray (index filedata HistoryKey) of
          Inr trackInfo \<Rightarrow> DeepCopyArray trackInfo n
        | Inl err \<Rightarrow> DeepCopyArray (n, [index filedata HistoryKey]) (Suc n))"
  by (cases filedata) (auto simp: HistoryGet_def index_nil_map)

lemma HistoryGet_fresh:
  assumes "HistoryGet filedata n = ((a, ys), n')"
  shows "insert a (addrs_list ys) \<subseteq> {n ..< n'}"
proof (cases "index filedata HistoryKey = JNil")
  case True
  with assms show ?thesis by (auto simp: HistoryGet_def)
next
  case False
  note get = HistoryGet_value [OF False, of n]
  show ?thesis
  proof (cases "ToArray (index filedata HistoryKey)")
    case (Inr trackInfo)
    with get assms have "DeepCopyArray trackInfo n = ((a, ys), n')"
      by simp
    then show ?thesis by (rule DeepCopyArray_fresh)
  next
    case (Inl err)
    with get assms
    have "DeepCopyArray (n, [index filedata HistoryKey]) (Suc n) = ((a, ys), n')"
      by simp
    from DeepCopyArray_fresh [OF this] show ?thesis by auto
  qed
qed

lemma HistoryGet_wrap:
  assumes "index filedata HistoryKey = v" and "v \<noteq> JNil" and "\<forall>b xs. v \<noteq> JArray b xs"
    and "HistoryGet filedata n = ((a, ys), n')"
  shows "content_list ys = [content v]"
proof -
  from assms(1,2) have "index filedata HistoryKey \<noteq> JNil"
    by simp
  note get = HistoryGet_value [OF this, of n]
  from assms(3) obtain err where "ToArray v = Inl err"
    by (cases v) (auto simp: ToArray_def)
  with assms(1,4) get have "DeepCopyArray (n, [v]) (Suc n) = ((a, ys), n')"
    by simp
  from DeepCopyArray_content [OF this] show ?thesis by simp
qed

lemma HistoryGet_array:
  assumes "index filedata HistoryKey = JArray b xs"
    and "HistoryGet filedata n = ((a, ys), n')"
  shows "content_list ys = content_list xs"
proof -
  from assms(1) have "index filedata HistoryKey \<noteq> JNil"
    by simp
  note get = HistoryGet_value [OF this, of n]
  with assms have "DeepCopyArray (b, xs) n = ((a, ys), n')"
    by (simp add: ToArray_def)
  from DeepCopyArray_content [OF this] show ?thesis by simp
qed

text \<open>
  C8 (as the code has it). \<open>HistoryGet\<close> returns a slice with no element when the
  document is nil, has no key \<open>_ignore\<close>, or holds nil under it. When the key holds a
  value that is neither nil nor a slice, the result has one element, with the contents
  of that value; when it holds a slice, the result has the contents of that slice's
  elements. The result is a copy: every store it reaches, its own included, was
  allocated during the call, so it shares none with a document whose stores were
  allocated before.
\<close>

theorem history_get_rule:
  assumes "HistoryGet filedata n = ((a, ys), n')"
  shows "(filedata = None \<or> index filedata HistoryKey = JNil \<longrightarrow> ys = [])
       \<and> (\<forall>m. filedata = Some m \<and> HistoryKey \<notin> dom m \<longrightarrow> ys = [])
       \<and> (\<forall>v. index filedata HistoryKey = v \<and> v \<noteq> JNil \<and> (\<forall>b xs. v \<noteq> JArray b xs) \<longrightarrow>
             content_list ys = [content v])
       \<and> (\<forall>b xs. index filedata HistoryKey = JArray b xs \<longrightarrow>
             content_list ys = content_list xs)
       \<and> insert a (addrs_list ys) \<subseteq> {n ..< n'}
       \<and> (addrs (index filedata HistoryKey) \<subseteq> {..< n} \<longrightarrow>
             insert a (addrs_list ys) \<inter> addrs (index filedata HistoryKey) = {})"
proof -
  have empty: "filedata = None \<or> index filedata HistoryKey = JNil \<longrightarrow> ys = []"
    using assms HistoryGet_no_value [of filedata n] index_nil_map by auto
  then have absent: "\<forall>m. filedata = Some m \<and> HistoryKey \<notin> dom m \<longrightarrow> ys = []"
    using index_absent [of _ HistoryKey] by (auto simp: domIff)
  have wrap: "\<forall>v. index filedata HistoryKey = v \<and> v \<noteq> JNil \<and> (\<forall>b xs. v \<noteq> JArray b xs) \<longrightarrow>
             content_list ys = [content v]"
    using HistoryGet_wrap [OF _ _ _ assms] by blast
  have array: "\<forall>b xs. index filedata HistoryKey = JArray b xs \<longrightarrow>
             content_list ys = content_list xs"
    using HistoryGet_array [OF _ assms] by blast
  have fresh: "insert a (addrs_list ys) \<subseteq> {n ..< n'}"
    using assms by (rule HistoryGet_fresh)
  then have apart: "addrs (index filedata HistoryKey) \<subseteq> {..< n} \<longrightarrow>
             insert a (addrs_list ys) \<inter> addrs (index filedata HistoryKey) = {}"
    by fastforce
  from empty absent wrap array fresh apart show ?thesis by blast
qed

theorem history_get_rule_witness:
  "HistoryGet (Some [HistoryKey \<mapsto> JArray 0 [JObject 1 [(''tool'', JString ''kced'')]]]) 2
     = ((2, [JObject 3 [(''tool'', JString ''kced'')]]), 4)
   \<and> addrs (index (Some [HistoryKey \<mapsto> JArray 0 [JObject 1 [(''tool'', JString ''kced'')]]])
         HistoryKey) \<subseteq> {..< 2}
   \<and> content_list [JObject 3 [(''tool'', JString ''kced'')]]
       = content_list [JObject 1 [(''tool'', JString ''kced'')]]
   \<and> insert 2 (addrs_list [JObject 3 [(''tool'', JString ''kced'')]])
       \<inter> addrs (JArray 0 [JObject 1 [(''tool'', JString ''kced'')]]) = {}"
proof -
  let ?doc = "Some [HistoryKey \<mapsto> JArray 0 [JObject 1 [(''tool'', JString ''kced'')]]]"
  have get: "HistoryGet ?doc 2 = ((2, [JObject 3 [(''tool'', JString ''kced'')]]), 4)"
    by (simp add: HistoryGet_def index_def ToArray_def DeepCopyArray_def numeral_2_eq_2
        numeral_3_eq_3 eval_nat_numeral)
  have stored: "index ?doc HistoryKey = JArray 0 [JObject 1 [(''tool'', JString ''kced'')]]"
    by (simp add: index_def)
  from history_get_rule [OF get] stored show ?thesis
    using get by auto
qed

theorem history_get_nil_counterexample:
  "[HistoryKey \<mapsto> JNil] HistoryKey = Some JNil
   \<and> snd (fst (HistoryGet (Some [HistoryKey \<mapsto> JNil]) 0)) = []
   \<and> snd (fst (HistoryGet (Some [HistoryKey \<mapsto> JNil]) 0)) \<noteq> [JNil]"
  by (simp add: HistoryGet_def index_def)

subsection \<open>Parsing \<open>_format_version\<close>\<close>

lemma decimal_from_mono: "n \<le> decimal_from n ds"
proof (induction ds arbitrary: n)
  case Nil
  show ?case by simp
next
  case (Cons c cs)
  have "n \<le> n * 10 + digit_val c" by simp
  also have "\<dots> \<le> decimal_from (n * 10 + digit_val c) cs" by (rule Cons.IH)
  finally show ?case by simp
qed

lemma uint_loop_digits:
  "list_all is_digit ds \<Longrightarrow> decimal_from n ds < 2 ^ b \<Longrightarrow>
     uint_loop b n ds = Inr (decimal_from n ds)"
proof (induction ds arbitrary: n)
  case Nil
  show ?case by simp
next
  case (Cons c cs)
  from Cons.prems(2) have "decimal_from (n * 10 + digit_val c) cs < 2 ^ b" by simp
  moreover have "n * 10 + digit_val c \<le> decimal_from (n * 10 + digit_val c) cs"
    by (rule decimal_from_mono)
  ultimately have "\<not> 2 ^ b \<le> n * 10 + digit_val c" by simp
  with Cons show ?case by simp
qed

lemma uint_loop_Inr:
  "uint_loop b n ds = Inr v \<Longrightarrow> list_all is_digit ds \<and> v = decimal_from n ds"
  by (induction ds arbitrary: n) (auto split: if_splits)

lemma digit_not_special:
  assumes "is_digit c"
  shows "c \<noteq> CHR ''.''" "c \<noteq> CHR ''+''" "c \<noteq> CHR ''-''" "\<not> is_space c"
  using assms by (auto simp: is_digit_def is_space_def)

lemma Atoi_decimal:
  assumes "is_decimal ds" and "decimal_value ds < 2 ^ (w - 1)"
  shows "Atoi w ds = Inr (int (decimal_value ds))"
proof -
  from assms(1) obtain c cs where ds: "ds = c # cs" and "is_digit c"
    by (cases ds) (auto simp: is_decimal_def)
  then have nosign: "c \<noteq> CHR ''+''" "c \<noteq> CHR ''-''"
    by (simp_all add: digit_not_special)
  have "(2::nat) ^ (w - 1) \<le> 2 ^ w" by (rule power_increasing) simp_all
  with assms(2) have "decimal_value ds < 2 ^ w" by (rule less_le_trans)
  then have "decimal_from 0 ds < 2 ^ w" by (simp add: decimal_value_def)
  with assms(1) have "uint_loop w 0 ds = Inr (decimal_value ds)"
    by (simp add: uint_loop_digits is_decimal_def decimal_value_def)
  with assms(2) nosign show ?thesis
    unfolding Atoi_def ParseInt_def ParseUint_def ds by (simp add: Let_def)
qed

lemma ParseUint_Inr: "ParseUint s b = Inr v \<Longrightarrow> is_decimal s"
  by (auto simp: ParseUint_def is_decimal_def split: if_splits dest: uint_loop_Inr)

lemma Atoi_Inr_signed: "Atoi w s = Inr v \<Longrightarrow> signed_decimal s"
  by (cases s)
     (auto simp: Atoi_def ParseInt_def Let_def signed_decimal_def
       split: sum.splits if_splits dest: ParseUint_Inr)

lemma Split_no_sep: "sep \<notin> set s \<Longrightarrow> Split s sep = [s]"
  by (induction s) auto

lemma Split_append_sep: "sep \<notin> set a \<Longrightarrow> Split (a @ sep # b) sep = a # Split b sep"
  by (induction a) auto

lemma Split_covers:
  "c \<in> set s \<Longrightarrow> c \<noteq> sep \<Longrightarrow> \<exists>seg \<in> set (Split s sep). c \<in> set seg"
proof (induction s)
  case Nil
  then show ?case by simp
next
  case (Cons x xs)
  obtain seg segs where sp: "Split xs sep = seg # segs"
    using Split_not_Nil [of xs sep] by (cases "Split xs sep") auto
  show ?case
  proof (cases "x = sep")
    case True
    with Cons show ?thesis by auto
  next
    case False
    show ?thesis
    proof (cases "c = x")
      case True
      with False sp show ?thesis by simp
    next
      case neq: False
      with Cons obtain seg' where "seg' \<in> set (seg # segs)" "c \<in> set seg'"
        using sp by auto
      with False sp show ?thesis by auto
    qed
  qed
qed

lemma signed_decimal_chars:
  "signed_decimal seg \<Longrightarrow> c \<in> set seg \<Longrightarrow> is_digit c \<or> c = CHR ''+'' \<or> c = CHR ''-''"
  by (cases seg) (auto simp: signed_decimal_def is_decimal_def list_all_iff split: if_splits)

lemma ParseFormatVersion_string:
  assumes "m VersionKey = Some (JString s)"
  shows "ParseFormatVersion intSize (Some m) =
     (case Split s (CHR ''.'') of
        [x] \<Rightarrow> (case Atoi intSize x of
                  Inl err \<Rightarrow> Returned (Inl format_error)
                | Inr major \<Rightarrow> Returned (Inr (major, 0)))
      | [x, y] \<Rightarrow> (case Atoi intSize x of
                     Inl err \<Rightarrow> Returned (Inl format_error)
                   | Inr major \<Rightarrow>
                       (case Atoi intSize y of
                          Inl err \<Rightarrow> Returned (Inl format_error)
                        | Inr minor \<Rightarrow> Returned (Inr (major, minor))))
      | _ \<Rightarrow> Returned (Inl format_error))"
  using assms Split_not_Nil [of s "CHR ''.''"]
  by (auto simp: ParseFormatVersion_def GetStringField_def index_def Let_def
      split: list.splits sum.splits)

lemma ParseFormatVersion_Inr:
  assumes "m VersionKey = Some (JString s)"
    and "ParseFormatVersion intSize (Some m) = Returned (Inr v)"
  shows "length (Split s (CHR ''.'')) \<le> 2
       \<and> (\<forall>seg \<in> set (Split s (CHR ''.'')). signed_decimal seg)"
  using assms ParseFormatVersion_string [of m s intSize]
  by (auto split: list.splits sum.splits dest: Atoi_Inr_signed)

lemma ParseFormatVersion_Inl:
  "ParseFormatVersion intSize data = Returned (Inl err) \<Longrightarrow> err = format_error"
  by (auto simp: ParseFormatVersion_def Let_def split: sum.splits list.splits if_splits)


lemma decimal_from_append:
  "decimal_from n (xs @ ys) = decimal_from (decimal_from n xs) ys"
  by (induction xs arbitrary: n) simp_all

lemma digit_char_digit:
  assumes "d < 10"
  shows "is_digit (digit_char d)" and "digit_val (digit_char d) = d"
proof -
  from assms have "d \<in> {0, 1, 2, 3, 4, 5, 6, 7, 8, 9}" by auto
  then show "is_digit (digit_char d)" and "digit_val (digit_char d) = d"
    by (auto simp: digit_char_def is_digit_def digit_val_def)
qed

lemma utoa_decimal: "is_decimal (utoa n) \<and> decimal_value (utoa n) = n"
proof (induction n rule: utoa.induct)
  case (1 n)
  show ?case
  proof (cases "n < 10")
    case True
    then show ?thesis
      by (simp add: utoa.simps [of n] is_decimal_def decimal_value_def digit_char_digit)
  next
    case False
    have last: "n mod 10 < 10" by simp
    from False have unfold: "utoa n = utoa (n div 10) @ [digit_char (n mod 10)]"
      by (simp add: utoa.simps [of n])
    from "1.IH" [OF False] have ih: "is_decimal (utoa (n div 10))"
      "decimal_from 0 (utoa (n div 10)) = n div 10"
      by (simp_all add: decimal_value_def)
    have "is_decimal (utoa n)"
      using ih(1) digit_char_digit(1) [OF last] unfolding unfold
      by (simp add: is_decimal_def)
    moreover have "decimal_value (utoa n) = n"
      unfolding unfold decimal_value_def decimal_from_append
      using ih(2) digit_char_digit(2) [OF last] by simp
    ultimately show ?thesis ..
  qed
qed

lemma is_decimal_no_dot: "is_decimal s \<Longrightarrow> CHR ''.'' \<notin> set s"
  by (auto simp: is_decimal_def list_all_iff dest: digit_not_special(1))

lemma ParseFormatVersion_major:
  assumes "is_decimal M" and "decimal_value M < 2 ^ (intSize - 1)"
    and "m VersionKey = Some (JString M)"
  shows "ParseFormatVersion intSize (Some m) = Returned (Inr (int (decimal_value M), 0))"
proof -
  have "Split M (CHR ''.'') = [M]"
    using assms(1) by (simp add: Split_no_sep is_decimal_no_dot)
  then show ?thesis
    using ParseFormatVersion_string [of m M intSize] assms
    by (simp add: Atoi_decimal)
qed

lemma ParseFormatVersion_major_minor:
  assumes "is_decimal M" and "is_decimal mi"
    and "decimal_value M < 2 ^ (intSize - 1)" and "decimal_value mi < 2 ^ (intSize - 1)"
    and "m VersionKey = Some (JString (M @ ''.'' @ mi))"
  shows "ParseFormatVersion intSize (Some m)
           = Returned (Inr (int (decimal_value M), int (decimal_value mi)))"
proof -
  have "Split (M @ ''.'' @ mi) (CHR ''.'') = [M, mi]"
    using assms(1,2) by (simp add: Split_append_sep Split_no_sep is_decimal_no_dot)
  then show ?thesis
    using ParseFormatVersion_string [of m "M @ ''.'' @ mi" intSize] assms
    by (simp add: Atoi_decimal)
qed

lemma ParseFormatVersion_not_string:
  assumes "m VersionKey = None \<or> (\<exists>v. m VersionKey = Some v \<and> (\<forall>s. v \<noteq> JString s))"
  shows "ParseFormatVersion intSize (Some m) = Returned (Inl format_error)"
proof -
  have "\<forall>s. index (Some m) VersionKey \<noteq> JString s"
    using assms by (auto simp: index_def)
  then have "GetStringField (Some m) VersionKey = Inl (FieldError VersionKey)"
    by (cases "index (Some m) VersionKey") (simp_all add: GetStringField_def)
  then show ?thesis by (simp add: ParseFormatVersion_def)
qed

text \<open>
  C4 (as the code has it). When \<open>_format_version\<close> holds a string "M" or "M.m" of
  decimal numerals whose values fit Go's \<open>int\<close> (below \<open>2 ^ (intSize - 1)\<close>),
  \<open>ParseFormatVersion\<close> returns the pair of their values, with minor 0 when there is
  no minor; so the version printed from two such numbers parses back to them. When the
  key is missing or holds something that is not a string, it returns the format error.
\<close>

theorem parse_format_version_accepts:
  "(is_decimal M \<and> decimal_value M < 2 ^ (intSize - 1) \<and> m VersionKey = Some (JString M) \<longrightarrow>
      ParseFormatVersion intSize (Some m) = Returned (Inr (int (decimal_value M), 0)))
   \<and> (is_decimal M \<and> is_decimal mi
        \<and> decimal_value M < 2 ^ (intSize - 1) \<and> decimal_value mi < 2 ^ (intSize - 1)
        \<and> m VersionKey = Some (JString (M @ ''.'' @ mi)) \<longrightarrow>
      ParseFormatVersion intSize (Some m)
        = Returned (Inr (int (decimal_value M), int (decimal_value mi))))
   \<and> (\<forall>a b. a < 2 ^ (intSize - 1) \<and> b < 2 ^ (intSize - 1)
        \<and> m VersionKey = Some (JString (utoa a @ ''.'' @ utoa b)) \<longrightarrow>
      ParseFormatVersion intSize (Some m) = Returned (Inr (int a, int b)))
   \<and> (m VersionKey = None \<or> (\<exists>v. m VersionKey = Some v \<and> (\<forall>s. v \<noteq> JString s)) \<longrightarrow>
      ParseFormatVersion intSize (Some m) = Returned (Inl format_error))"
proof -
  have major: "is_decimal M \<and> decimal_value M < 2 ^ (intSize - 1)
      \<and> m VersionKey = Some (JString M) \<longrightarrow>
      ParseFormatVersion intSize (Some m) = Returned (Inr (int (decimal_value M), 0))"
    using ParseFormatVersion_major [of M intSize m] by (intro impI) (elim conjE)
  have both: "is_decimal M \<and> is_decimal mi
        \<and> decimal_value M < 2 ^ (intSize - 1) \<and> decimal_value mi < 2 ^ (intSize - 1)
        \<and> m VersionKey = Some (JString (M @ ''.'' @ mi)) \<longrightarrow>
      ParseFormatVersion intSize (Some m)
        = Returned (Inr (int (decimal_value M), int (decimal_value mi)))"
    using ParseFormatVersion_major_minor [of M mi intSize m] by (intro impI) (elim conjE)
  have printed: "\<forall>a b. a < 2 ^ (intSize - 1) \<and> b < 2 ^ (intSize - 1)
        \<and> m VersionKey = Some (JString (utoa a @ ''.'' @ utoa b)) \<longrightarrow>
      ParseFormatVersion intSize (Some m) = Returned (Inr (int a, int b))"
  proof (intro allI impI, elim conjE)
    fix a b
    assume a: "a < 2 ^ (intSize - 1)" and b: "b < 2 ^ (intSize - 1)"
      and v: "m VersionKey = Some (JString (utoa a @ ''.'' @ utoa b))"
    have da: "is_decimal (utoa a)" "decimal_value (utoa a) = a"
      using utoa_decimal [of a] by simp_all
    have db: "is_decimal (utoa b)" "decimal_value (utoa b) = b"
      using utoa_decimal [of b] by simp_all
    from a b have "decimal_value (utoa a) < 2 ^ (intSize - 1)"
      "decimal_value (utoa b) < 2 ^ (intSize - 1)"
      by (simp_all only: da db)
    from ParseFormatVersion_major_minor [of "utoa a" "utoa b" intSize m, OF da(1) db(1) this v]
    show "ParseFormatVersion intSize (Some m) = Returned (Inr (int a, int b))"
      by (simp only: da db)
  qed
  have other: "m VersionKey = None \<or> (\<exists>v. m VersionKey = Some v \<and> (\<forall>s. v \<noteq> JString s)) \<longrightarrow>
      ParseFormatVersion intSize (Some m) = Returned (Inl format_error)"
    using ParseFormatVersion_not_string [of m intSize] by (intro impI)
  from major both printed other show ?thesis
    by (intro conjI)
qed

theorem parse_format_version_accepts_witness:
  "is_decimal ''2'' \<and> is_decimal ''10''
   \<and> decimal_value ''2'' = 2 \<and> decimal_value ''10'' = 10
   \<and> ParseFormatVersion 64 (Some [VersionKey \<mapsto> JString ''2.10'']) = Returned (Inr (2, 10))
   \<and> ParseFormatVersion 64 (Some [VersionKey \<mapsto> JString ''2'']) = Returned (Inr (2, 0))
   \<and> ParseFormatVersion 64 (Some [VersionKey \<mapsto> JNumber 2]) = Returned (Inl format_error)
   \<and> ParseFormatVersion 64 (Some Map.empty) = Returned (Inl format_error)"
proof -
  have d: "is_decimal ''2''" "is_decimal ''10''" "decimal_value ''2'' = 2"
    "decimal_value ''10'' = 10"
    by (simp_all add: is_decimal_def is_digit_def decimal_value_def digit_val_def)
  have "ParseFormatVersion 64 (Some [VersionKey \<mapsto> JString ''2.10'']) = Returned (Inr (2, 10))"
    using parse_format_version_accepts [of "''2''" 64 "[VersionKey \<mapsto> JString ''2.10'']" "''10''"] d
    by simp
  moreover have "ParseFormatVersion 64 (Some [VersionKey \<mapsto> JString ''2'']) = Returned (Inr (2, 0))"
    using parse_format_version_accepts [of "''2''" 64 "[VersionKey \<mapsto> JString ''2'']"] d
    by simp
  moreover have "ParseFormatVersion 64 (Some [VersionKey \<mapsto> JNumber 2]) = Returned (Inl format_error)"
    using parse_format_version_accepts [of _ 64 "[VersionKey \<mapsto> JNumber 2]"]
    by simp
  moreover have "ParseFormatVersion 64 (Some Map.empty) = Returned (Inl format_error)"
    using parse_format_version_accepts [of _ 64 Map.empty]
    by simp
  ultimately show ?thesis using d by simp
qed

theorem parse_format_version_range_counterexample:
  "is_decimal ''9223372036854775808''
   \<and> ParseFormatVersion 64 (Some [VersionKey \<mapsto> JString ''9223372036854775808''])
       = Returned (Inl format_error)
   \<and> ParseFormatVersion 32 (Some [VersionKey \<mapsto> JString ''9223372036854775808''])
       = Returned (Inl format_error)"
  by (simp add: version_eval is_decimal_def)

text \<open>
  C3 (as the code has it). \<open>ParseFormatVersion\<close> returns the format error for every
  version string that is empty, has more than two segments between dots, has a segment
  that is not a decimal numeral with at most one sign (\<open>+\<close> or \<open>-\<close>) in front, or
  contains white space.
\<close>

theorem parse_format_version_rejects:
  assumes "m VersionKey = Some (JString s)"
    and "s = [] \<or> 2 < length (Split s (CHR ''.''))
         \<or> (\<exists>seg \<in> set (Split s (CHR ''.'')). \<not> signed_decimal seg)
         \<or> (\<exists>c \<in> set s. is_space c)"
  shows "ParseFormatVersion intSize (Some m) = Returned (Inl format_error)"
proof -
  obtain r where r: "ParseFormatVersion intSize (Some m) = Returned r"
    using ParseFormatVersion_returns by blast
  show ?thesis
  proof (cases r)
    case (Inl err)
    with r show ?thesis using ParseFormatVersion_Inl by blast
  next
    case (Inr v)
    with r assms(1) have len: "length (Split s (CHR ''.'')) \<le> 2"
      and segs: "\<forall>seg \<in> set (Split s (CHR ''.'')). signed_decimal seg"
      using ParseFormatVersion_Inr by blast+
    have "s \<noteq> []"
      using segs by (auto simp: signed_decimal_def)
    moreover have "\<not> is_space c" if "c \<in> set s" for c
    proof (cases "c = CHR ''.''")
      case True
      then show ?thesis by (simp add: is_space_def)
    next
      case False
      with that obtain seg where "seg \<in> set (Split s (CHR ''.''))" "c \<in> set seg"
        using Split_covers by blast
      with segs have "is_digit c \<or> c = CHR ''+'' \<or> c = CHR ''-''"
        using signed_decimal_chars by blast
      then show ?thesis
        by (auto simp: digit_not_special(4)) (simp_all add: is_space_def)
    qed
    ultimately have False using assms(2) len segs by auto
    then show ?thesis ..
  qed
qed

theorem parse_format_version_rejects_witness:
  "ParseFormatVersion 64 (Some [VersionKey \<mapsto> JString '''']) = Returned (Inl format_error)
   \<and> 2 < length (Split ''1.2.3'' (CHR ''.''))
   \<and> ParseFormatVersion 64 (Some [VersionKey \<mapsto> JString ''1.2.3'']) = Returned (Inl format_error)
   \<and> \<not> signed_decimal ''a''
   \<and> ParseFormatVersion 64 (Some [VersionKey \<mapsto> JString ''a.b'']) = Returned (Inl format_error)
   \<and> is_space (CHR '' '')
   \<and> ParseFormatVersion 64 (Some [VersionKey \<mapsto> JString ''1. 2'']) = Returned (Inl format_error)"
proof -
  have h: "2 < length (Split ''1.2.3'' (CHR ''.''))" "\<not> signed_decimal ''a''"
    "is_space (CHR '' '')"
    by (simp_all add: signed_decimal_def is_decimal_def is_digit_def is_space_def)
  have "ParseFormatVersion 64 (Some [VersionKey \<mapsto> JString '''']) = Returned (Inl format_error)"
    using parse_format_version_rejects [of "[VersionKey \<mapsto> JString '''']" "''''" 64]
    by simp
  moreover have "ParseFormatVersion 64 (Some [VersionKey \<mapsto> JString ''1.2.3''])
      = Returned (Inl format_error)"
    using parse_format_version_rejects [of "[VersionKey \<mapsto> JString ''1.2.3'']" "''1.2.3''" 64] h(1)
    by simp
  moreover have "ParseFormatVersion 64 (Some [VersionKey \<mapsto> JString ''a.b''])
      = Returned (Inl format_error)"
    using parse_format_version_rejects [of "[VersionKey \<mapsto> JString ''a.b'']" "''a.b''" 64] h(2)
    by simp
  moreover have "ParseFormatVersion 64 (Some [VersionKey \<mapsto> JString ''1. 2''])
      = Returned (Inl format_error)"
    using parse_format_version_rejects [of "[VersionKey \<mapsto> JString ''1. 2'']" "''1. 2''" 64] h(3)
    by simp
  ultimately show ?thesis using h by simp
qed

theorem parse_format_version_sign_counterexample:
  "ParseFormatVersion 64 (Some [VersionKey \<mapsto> JString ''-1'']) = Returned (Inr (- 1, 0))
   \<and> ParseFormatVersion 64 (Some [VersionKey \<mapsto> JString ''+1.-2'']) = Returned (Inr (1, - 2))"
  by (simp add: version_eval)

end
